theory Spec2Isabelle
  imports Complex_Main "HOL-Library.Sublist"
begin

section \<open>Box utilities of yolox/utils/boxes.py\<close>

text \<open>
  A two-dimensional array or tensor of shape \<open>(N, C)\<close> is its column count \<open>C\<close>
  (which exists also when \<open>N = 0\<close>) together with its \<open>N\<close> rows.  Its entries are
  real numbers.  Where a claim turns on the element type, the array comes with its
  \<open>dtype\<close>: the in-place division of \<open>bboxes_iou\<close> depends on it, and the two
  format conversions round or truncate what they store according to it.  Everywhere else
  the entries stand for floating-point numbers whose rounding is left out.
\<close>

datatype error = IndexError | RuntimeError | ValueError

datatype dtype = Float32 | Float64 | Int64

text \<open>
  Type promotion of a binary operation: a floating operand makes the result floating,
  and the wider floating type wins.
\<close>

definition promote :: "dtype \<Rightarrow> dtype \<Rightarrow> dtype" where
  "promote a b =
     (if a = Float64 \<or> b = Float64 then Float64
      else if a = Float32 \<or> b = Float32 then Float32
      else Int64)"

subsection \<open>Rounding and truncation on a store\<close>






datatype tensor2 = Tensor2 (ncols: nat) (rows: "real list list")

definition wf_tensor :: "tensor2 \<Rightarrow> bool" where
  "wf_tensor t = list_all (\<lambda>r. length r = ncols t) (rows t)"

text \<open>\<open>t[:, j]\<close>: column \<open>j\<close> of every row.\<close>

definition col :: "nat \<Rightarrow> real list list \<Rightarrow> real list" where
  "col j rs = map (\<lambda>r. r ! j) rs"


text \<open>\<open>xs[mask]\<close>: boolean-mask indexing keeps the entries whose mask bit is set.\<close>

definition mask_select :: "'a list \<Rightarrow> bool list \<Rightarrow> 'a list" where
  "mask_select xs ms = map fst (filter snd (zip xs ms))"

subsection \<open>filter_box\<close>

definition filter_box :: "tensor2 \<Rightarrow> real \<times> real \<Rightarrow> error + tensor2" where
  "filter_box output scale_range =
     (case scale_range of (min_scale, max_scale) \<Rightarrow>
        if ncols output < 4 then Inl IndexError
        else
          let w = map2 (-) (col 2 (rows output)) (col 0 (rows output));
              h = map2 (-) (col 3 (rows output)) (col 1 (rows output));
              keep = map2 (\<and>)
                       (map (\<lambda>a. a > min_scale * min_scale) (map2 (*) w h))
                       (map (\<lambda>a. a < max_scale * max_scale) (map2 (*) w h))
          in Inr (Tensor2 (ncols output) (mask_select (rows output) keep)))"

text \<open>The area of a corner-form row, and the test the specification states for it.\<close>

definition box_area :: "real list \<Rightarrow> real" where
  "box_area r = (r ! 2 - r ! 0) * (r ! 3 - r ! 1)"

definition in_scale_range :: "real \<Rightarrow> real \<Rightarrow> real list \<Rightarrow> bool" where
  "in_scale_range min_scale max_scale r =
     (min_scale\<^sup>2 < box_area r \<and> box_area r < max_scale\<^sup>2)"

subsection \<open>xyxy2xywh and xyxy2cxcywh\<close>







subsection \<open>bboxes_iou\<close>

text \<open>
  The function may work in place, so it is modelled over an explicit store: a tensor
  variable holds an address, an operation that returns a new tensor (\<open>torch.max\<close>,
  \<open>torch.min\<close>, \<open>torch.prod\<close>, \<open>+\<close>, \<open>-\<close>, \<open>/\<close>, \<open>clamp\<close>) allocates
  a fresh address, and an operation whose name ends in an underscore (\<open>sub_\<close>,
  \<open>clamp_min_\<close>, \<open>div_\<close>) overwrites the tensor at the address it is called on.
  Slices such as \<open>bboxes_a[:, None, :2]\<close> are views that are only read.  Only a
  tensor that is bound to a name gets an address: the value of a nested expression is
  passed on without being stored.  The statement \<open>del\<close> drops a name and leaves the
  store as it is.  A quotient is \<open>None\<close> where
  the divisor is zero (the tensor library gives NaN or an infinity there).

  An input tensor carries its dtype.  True division gives a floating result, and
  \<open>div_\<close> writes that result into the tensor it is called on: on an integer tensor it
  raises RuntimeError (the result type cannot be cast to the integer type).
  \<open>area_ious\<close> is integer exactly when it was computed from integer tensors alone, that
  is for two integer inputs in corner form; in centre form the division by 2 has made
  every intermediate tensor floating.  The entries of floating tensors are real numbers
  whose rounding is left out, and the wrap-around of integer entries is not modelled.
\<close>

datatype tval =
    Vec "real list"
  | Mat dtype tensor2
  | Grid "real list list"
  | Cube "real list list list"
  | Quot "real option list list"

type_synonym store = "tval list"

definition alloc :: "store \<Rightarrow> tval \<Rightarrow> store \<times> nat" where
  "alloc s v = (s @ [v], length s)"

definition mat_at :: "store \<Rightarrow> nat \<Rightarrow> tensor2" where
  "mat_at s p = (case s ! p of Mat d t \<Rightarrow> t | _ \<Rightarrow> Tensor2 0 [])"

definition dtype_at :: "store \<Rightarrow> nat \<Rightarrow> dtype" where
  "dtype_at s p = (case s ! p of Mat d t \<Rightarrow> d | _ \<Rightarrow> Float32)"

definition vec_at :: "store \<Rightarrow> nat \<Rightarrow> real list" where
  "vec_at s p = (case s ! p of Vec v \<Rightarrow> v | _ \<Rightarrow> [])"

definition grid_at :: "store \<Rightarrow> nat \<Rightarrow> real list list" where
  "grid_at s p = (case s ! p of Grid g \<Rightarrow> g | _ \<Rightarrow> [])"

definition cube_at :: "store \<Rightarrow> nat \<Rightarrow> real list list list" where
  "cube_at s p = (case s ! p of Cube c \<Rightarrow> c | _ \<Rightarrow> [])"

text \<open>Broadcasting an \<open>(N, 1, k)\<close> view against an \<open>(M, k)\<close> view gives \<open>(N, M, k)\<close>.\<close>

definition outer :: "('a \<Rightarrow> 'b \<Rightarrow> 'c) \<Rightarrow> 'a list \<Rightarrow> 'b list \<Rightarrow> 'c list list" where
  "outer f xs ys = map (\<lambda>x. map (f x) ys) xs"

text \<open>\<open>b[:, :2] - b[:, 2:] / 2\<close> and \<open>b[:, :2] + b[:, 2:] / 2\<close>, for one row.\<close>

definition center_minus_half :: "real list \<Rightarrow> real list" where
  "center_minus_half r = map2 (-) (take 2 r) (map (\<lambda>v. v / 2) (drop 2 r))"

definition center_plus_half :: "real list \<Rightarrow> real list" where
  "center_plus_half r = map2 (+) (take 2 r) (map (\<lambda>v. v / 2) (drop 2 r))"

definition cube_sub :: "real list list list \<Rightarrow> real list list list \<Rightarrow> real list list list" where
  "cube_sub x y = map2 (map2 (map2 (-))) x y"

definition cube_clamp_min :: "real \<Rightarrow> real list list list \<Rightarrow> real list list list" where
  "cube_clamp_min c x = map (map (map (\<lambda>v. max v c))) x"

text \<open>\<open>torch.prod(x, 2)\<close> and \<open>torch.prod(x, 1)\<close>.\<close>

definition prod_dim2 :: "real list list list \<Rightarrow> real list list" where
  "prod_dim2 x = map (map prod_list) x"

definition prod_dim1 :: "real list list \<Rightarrow> real list" where
  "prod_dim1 x = map prod_list x"

definition rows_sub :: "real list list \<Rightarrow> real list list \<Rightarrow> real list list" where
  "rows_sub x y = map2 (map2 (-)) x y"

text \<open>\<open>area_a[:, None] + area_b - area_i\<close>.\<close>

definition union_area :: "real list \<Rightarrow> real list \<Rightarrow> real list list \<Rightarrow> real list list" where
  "union_area area_a area_b area_i =
     map2 (\<lambda>aa row. map2 (\<lambda>ab ai. aa + ab - ai) area_b row) area_a area_i"

definition fdiv :: "real \<Rightarrow> real \<Rightarrow> real option" where
  "fdiv x y = (if y = 0 then None else Some (x / y))"

definition grid_div :: "real list list \<Rightarrow> real list list \<Rightarrow> real option list list" where
  "grid_div x y = map2 (map2 fdiv) x y"

definition bboxes_iou :: "store \<Rightarrow> nat \<Rightarrow> nat \<Rightarrow> bool \<Rightarrow> bool \<Rightarrow> error + store \<times> nat" where
  "bboxes_iou s bboxes_a bboxes_b xyxy inplace =
     (if ncols (mat_at s bboxes_a) \<noteq> 4 \<or> ncols (mat_at s bboxes_b) \<noteq> 4 then Inl IndexError
      else if inplace then
        (let integer_ious =
               (xyxy \<and> promote (dtype_at s bboxes_a) (dtype_at s bboxes_b) = Int64);
             (s, area_ious, area_a, area_b) =
           (if xyxy then
              (let (s, tl) = alloc s (Cube (outer (map2 max)
                     (map (take 2) (rows (mat_at s bboxes_a)))
                     (map (take 2) (rows (mat_at s bboxes_b)))));
                   (s, br_hw) = alloc s (Cube (outer (map2 min)
                     (map (drop 2) (rows (mat_at s bboxes_a)))
                     (map (drop 2) (rows (mat_at s bboxes_b)))));
                   s = s[br_hw := Cube (cube_sub (cube_at s br_hw) (cube_at s tl))];
                   s = s[br_hw := Cube (cube_clamp_min 0 (cube_at s br_hw))];
                   (s, area_ious) = alloc s (Grid (prod_dim2 (cube_at s br_hw)));
                   (s, area_a) = alloc s (Vec (prod_dim1 (rows_sub
                     (map (drop 2) (rows (mat_at s bboxes_a)))
                     (map (take 2) (rows (mat_at s bboxes_a))))));
                   (s, area_b) = alloc s (Vec (prod_dim1 (rows_sub
                     (map (drop 2) (rows (mat_at s bboxes_b)))
                     (map (take 2) (rows (mat_at s bboxes_b))))))
               in (s, area_ious, area_a, area_b))
            else
              (let (s, tl) = alloc s (Cube (outer (map2 max)
                     (map center_minus_half (rows (mat_at s bboxes_a)))
                     (map center_minus_half (rows (mat_at s bboxes_b)))));
                   (s, br_hw) = alloc s (Cube (outer (map2 min)
                     (map center_plus_half (rows (mat_at s bboxes_a)))
                     (map center_plus_half (rows (mat_at s bboxes_b)))));
                   s = s[br_hw := Cube (cube_sub (cube_at s br_hw) (cube_at s tl))];
                   s = s[br_hw := Cube (cube_clamp_min 0 (cube_at s br_hw))];
                   (s, area_ious) = alloc s (Grid (prod_dim2 (cube_at s br_hw)));
                   (s, area_a) = alloc s (Vec (prod_dim1
                     (map (drop 2) (rows (mat_at s bboxes_a)))));
                   (s, area_b) = alloc s (Vec (prod_dim1
                     (map (drop 2) (rows (mat_at s bboxes_b)))))
               in (s, area_ious, area_a, area_b)));
           (s, union) = alloc s (Grid (union_area (vec_at s area_a) (vec_at s area_b)
                                         (grid_at s area_ious)))
         in if integer_ious then Inl RuntimeError
            else
              (let s = s[area_ious := Quot (grid_div (grid_at s area_ious) (grid_at s union))]
               in Inr (s, area_ious)))
      else
        (let (s, tl, br, area_a, area_b) =
           (if xyxy then
              (let (s, tl) = alloc s (Cube (outer (map2 max)
                     (map (take 2) (rows (mat_at s bboxes_a)))
                     (map (take 2) (rows (mat_at s bboxes_b)))));
                   (s, br) = alloc s (Cube (outer (map2 min)
                     (map (drop 2) (rows (mat_at s bboxes_a)))
                     (map (drop 2) (rows (mat_at s bboxes_b)))));
                   (s, area_a) = alloc s (Vec (prod_dim1 (rows_sub
                     (map (drop 2) (rows (mat_at s bboxes_a)))
                     (map (take 2) (rows (mat_at s bboxes_a))))));
                   (s, area_b) = alloc s (Vec (prod_dim1 (rows_sub
                     (map (drop 2) (rows (mat_at s bboxes_b)))
                     (map (take 2) (rows (mat_at s bboxes_b))))))
               in (s, tl, br, area_a, area_b))
            else
              (let (s, tl) = alloc s (Cube (outer (map2 max)
                     (map center_minus_half (rows (mat_at s bboxes_a)))
                     (map center_minus_half (rows (mat_at s bboxes_b)))));
                   (s, br) = alloc s (Cube (outer (map2 min)
                     (map center_plus_half (rows (mat_at s bboxes_a)))
                     (map center_plus_half (rows (mat_at s bboxes_b)))));
                   (s, area_a) = alloc s (Vec (prod_dim1
                     (map (drop 2) (rows (mat_at s bboxes_a)))));
                   (s, area_b) = alloc s (Vec (prod_dim1
                     (map (drop 2) (rows (mat_at s bboxes_b)))))
               in (s, tl, br, area_a, area_b)));
           (s, hw) = alloc s (Cube (cube_clamp_min 0 (cube_sub (cube_at s br) (cube_at s tl))));
           (s, area_i) = alloc s (Grid (prod_dim2 (cube_at s hw)));
           (s, ious) = alloc s (Quot (grid_div (grid_at s area_i)
                          (union_area (vec_at s area_a) (vec_at s area_b) (grid_at s area_i))))
         in Inr (s, ious)))"

text \<open>What a call returns: the error, or the tensor at the returned address.\<close>

definition returned :: "error + store \<times> nat \<Rightarrow> error + tval" where
  "returned r = (case r of Inl e \<Rightarrow> Inl e | Inr (s, p) \<Rightarrow> Inr (s ! p))"

subsection \<open>matrix_iou\<close>


text \<open>
  The entry that \<open>bboxes_iou\<close> computes for one row of each input (lemma
  \<open>bboxes_iou_result\<close> below), and the entry that \<open>matrix_iou\<close> computes (lemma
  \<open>matrix_iou_result\<close>).
\<close>

definition pair_iou :: "bool \<Rightarrow> real list \<Rightarrow> real list \<Rightarrow> real option" where
  "pair_iou xyxy ra rb =
     (let tl = (if xyxy then map2 max (take 2 ra) (take 2 rb)
                else map2 max (center_minus_half ra) (center_minus_half rb));
          br = (if xyxy then map2 min (drop 2 ra) (drop 2 rb)
                else map2 min (center_plus_half ra) (center_plus_half rb));
          area_i = prod_list (map (\<lambda>v. max v 0) (map2 (-) br tl));
          area_a = (if xyxy then prod_list (map2 (-) (drop 2 ra) (take 2 ra))
                    else prod_list (drop 2 ra));
          area_b = (if xyxy then prod_list (map2 (-) (drop 2 rb) (take 2 rb))
                    else prod_list (drop 2 rb))
      in fdiv area_i (area_a + area_b - area_i))"


subsection \<open>adjust_lmks_anns\<close>

text \<open>\<open>r[0::2] = f(r[0::2])\<close> and \<open>r[1::2] = f(r[1::2])\<close> on one row.\<close>

fun map_even :: "(real \<Rightarrow> real) \<Rightarrow> real list \<Rightarrow> real list" where
  "map_even f (x # y # r) = f x # y # map_even f r"
| "map_even f [x] = [f x]"
| "map_even f [] = []"

fun map_odd :: "(real \<Rightarrow> real) \<Rightarrow> real list \<Rightarrow> real list" where
  "map_odd f (x # y # r) = x # f y # map_odd f r"
| "map_odd f r = r"

text \<open>
  The inner loop over the points of one row (the row reshaped to pairs): a point outside
  the image has both coordinates overwritten by \<open>-1\<close>.
\<close>

fun invalidate_points :: "real \<Rightarrow> real \<Rightarrow> real list \<Rightarrow> real list" where
  "invalidate_points w_max h_max (x # y # r) =
     (if x < 0 \<or> y < 0 \<or> x > w_max \<or> y > h_max then [- 1, - 1] else [x, y])
       @ invalidate_points w_max h_max r"
| "invalidate_points w_max h_max r = r"

definition adjust_lmks_anns ::
  "tensor2 \<Rightarrow> real \<Rightarrow> real \<Rightarrow> real \<Rightarrow> real \<Rightarrow> real \<Rightarrow> error + tensor2" where
  "adjust_lmks_anns landmarks scale_ratio padw padh w_max h_max =
     (let mask_landmarks = map (map (\<lambda>v. if v > 0 then 1 else 0)) (rows landmarks);
          l1 = map (map_even (\<lambda>v. v * scale_ratio + padw)) (rows landmarks);
          l2 = map (map_odd (\<lambda>v. v * scale_ratio + padh)) l1;
          l3 = map2 (map2 (\<lambda>v m. v * m + m - 1)) l2 mask_landmarks
      in if l3 \<noteq> [] \<and> odd (ncols landmarks) then Inl ValueError
         else Inr (Tensor2 (ncols landmarks) (map (invalidate_points w_max h_max) l3)))"

subsection \<open>Non-maximum suppression\<close>

text \<open>
  Modelled from the spec: \<open>torchvision.ops.nms\<close> and \<open>torchvision.ops.batched_nms\<close>
  are functions of a library and their code is not in the repository.  The specification
  gives their contract: candidates are sorted by fused score, descending, ties in the
  order of their indices; the highest remaining candidate is selected and every
  unselected candidate whose IoU with it exceeds the threshold is suppressed; the
  selected indices are returned in selection order.  The class-aware variant suppresses
  only within one class id.  The IoU is the corner-form IoU of section 4.3; an undefined
  IoU exceeds nothing.
\<close>

definition iou_exceeds :: "real \<Rightarrow> real list \<Rightarrow> real list \<Rightarrow> bool" where
  "iou_exceeds thr b1 b2 = (case pair_iou True b1 b2 of None \<Rightarrow> False | Some v \<Rightarrow> v > thr)"

fun suppress :: "(nat \<Rightarrow> nat \<Rightarrow> bool) \<Rightarrow> nat list \<Rightarrow> nat list" where
  "suppress hits [] = []"
| "suppress hits (i # rest) = i # suppress hits (filter (\<lambda>j. \<not> hits i j) rest)"

definition score_order :: "real list \<Rightarrow> nat list" where
  "score_order scores = sort_key (\<lambda>i. - (scores ! i)) [0..<length scores]"

definition nms :: "real list list \<Rightarrow> real list \<Rightarrow> real \<Rightarrow> nat list" where
  "nms boxes scores iou_threshold =
     suppress (\<lambda>i j. iou_exceeds iou_threshold (boxes ! i) (boxes ! j)) (score_order scores)"

definition batched_nms :: "real list list \<Rightarrow> real list \<Rightarrow> real list \<Rightarrow> real \<Rightarrow> nat list" where
  "batched_nms boxes scores idxs iou_threshold =
     suppress (\<lambda>i j. idxs ! i = idxs ! j \<and> iou_exceeds iou_threshold (boxes ! i) (boxes ! j))
       (score_order scores)"

subsection \<open>postprocess\<close>

text \<open>
  The prediction has shape \<open>(B, N, C)\<close>.  Lines 35 to 40 rewrite the first four columns
  of every row from centre form to corner form.
\<close>

datatype tensor3 = Tensor3 (ncols3: nat) (images: "real list list list")

definition to_corners :: "real list \<Rightarrow> real list" where
  "to_corners r =
     [r ! 0 - r ! 2 / 2, r ! 1 - r ! 3 / 2, r ! 0 + r ! 2 / 2, r ! 1 + r ! 3 / 2] @ drop 4 r"

text \<open>
  \<open>torch.max\<close> along a dimension of non-zero size: the largest value and the index of
  its first occurrence.
\<close>

definition torch_max :: "real list \<Rightarrow> real \<times> nat" where
  "torch_max xs = (let m = fold max (tl xs) (hd xs) in (m, length (takeWhile (\<lambda>x. x \<noteq> m) xs)))"

definition class_scores :: "nat \<Rightarrow> real list \<Rightarrow> real list" where
  "class_scores num_classes r = take num_classes (drop 5 r)"

definition detection_row :: "nat \<Rightarrow> bool \<Rightarrow> real list \<Rightarrow> real list" where
  "detection_row num_classes extra r =
     (let (class_conf, class_pred) = torch_max (class_scores num_classes r)
      in take 5 r @ [class_conf, real class_pred]
           @ (if extra then drop (5 + num_classes) r else []))"

definition conf_mask :: "nat \<Rightarrow> real \<Rightarrow> real list list \<Rightarrow> bool list" where
  "conf_mask num_classes conf_thre image_pred =
     map2 (\<lambda>obj class_conf. obj * class_conf \<ge> conf_thre)
       (col 4 image_pred)
       (map (\<lambda>r. fst (torch_max (class_scores num_classes r))) image_pred)"

text \<open>The detections that are left after \<open>detections = detections[conf_mask]\<close>.\<close>

definition candidates :: "nat \<Rightarrow> real \<Rightarrow> bool \<Rightarrow> real list list \<Rightarrow> real list list" where
  "candidates num_classes conf_thre extra image_pred =
     mask_select (map (detection_row num_classes extra) image_pred)
       (conf_mask num_classes conf_thre image_pred)"

text \<open>
  The body of the loop for one image of \<open>C\<close> columns.  \<open>torch.max\<close> raises
  IndexError on a class slice without columns.  For an image of exactly one row both \<open>squeeze\<close> calls
  give a tensor of no dimension, indexing by that mask adds a dimension (shape
  \<open>(1, 1, W)\<close> or \<open>(0, 1, W)\<close>), and \<open>detections[:, 4]\<close> then raises IndexError
  when the row passed the threshold.
\<close>

definition postprocess_image ::
  "nat \<Rightarrow> nat \<Rightarrow> real \<Rightarrow> real \<Rightarrow> bool \<Rightarrow> bool \<Rightarrow> bool \<Rightarrow> real list list
     \<Rightarrow> error + tensor2 option" where
  "postprocess_image C num_classes conf_thre nms_thre class_agnostic keypoints segs image_pred =
     (if image_pred = [] then Inr None
      else if C \<le> 5 \<or> num_classes = 0 then Inl IndexError
      else
        let detections = candidates num_classes conf_thre (keypoints \<or> segs) image_pred
        in if detections = [] then Inr None
           else if length image_pred = 1 then Inl IndexError
           else
             let nms_out_index =
                   (if class_agnostic
                    then nms (map (take 4) detections)
                           (map2 (*) (col 4 detections) (col 5 detections)) nms_thre
                    else batched_nms (map (take 4) detections)
                           (map2 (*) (col 4 detections) (col 5 detections))
                           (col 6 detections) nms_thre)
             in Inr (Some (Tensor2 (7 + (if keypoints \<or> segs then C - (5 + num_classes) else 0))
                             (map (\<lambda>i. detections ! i) nms_out_index))))"

text \<open>The loop over the images: the first exception ends the call.\<close>

fun per_image :: "('a \<Rightarrow> error + 'b) \<Rightarrow> 'a list \<Rightarrow> error + 'b list" where
  "per_image f [] = Inr []"
| "per_image f (x # xs) =
     (case f x of
        Inl e \<Rightarrow> Inl e
      | Inr y \<Rightarrow> (case per_image f xs of Inl e \<Rightarrow> Inl e | Inr ys \<Rightarrow> Inr (y # ys)))"

definition postprocess ::
  "tensor3 \<Rightarrow> nat \<Rightarrow> real \<Rightarrow> real \<Rightarrow> bool \<Rightarrow> bool \<Rightarrow> bool \<Rightarrow> error + tensor2 option list" where
  "postprocess prediction num_classes conf_thre nms_thre class_agnostic keypoints segs =
     (if ncols3 prediction < 4 then Inl IndexError
      else per_image
             (postprocess_image (ncols3 prediction) num_classes conf_thre nms_thre
                class_agnostic keypoints segs)
             (map (map to_corners) (images prediction)))"

text \<open>The fused confidence of a detection row, and of a prediction row.\<close>

definition fused_score :: "real list \<Rightarrow> real" where
  "fused_score d = d ! 4 * d ! 5"

definition fused_confidence :: "nat \<Rightarrow> real list \<Rightarrow> real" where
  "fused_confidence num_classes r = r ! 4 * fst (torch_max (class_scores num_classes r))"

section \<open>Helper lemmas\<close>

lemma mask_select_map: "mask_select xs (map P xs) = filter P xs"
  by (induction xs) (simp_all add: mask_select_def)


lemma map2_map_same: "map2 f (map g xs) (map h xs) = map (\<lambda>x. f (g x) (h x)) xs"
  by (induction xs) simp_all


lemma filter_box_eq:
  "filter_box output (mn, mx) =
     (if ncols output < 4 then Inl IndexError
      else Inr (Tensor2 (ncols output) (filter (in_scale_range mn mx) (rows output))))"
proof -
  have "map2 (\<and>)
          (map (\<lambda>a. a > mn * mn)
             (map2 (*) (map2 (-) (col 2 rs) (col 0 rs)) (map2 (-) (col 3 rs) (col 1 rs))))
          (map (\<lambda>a. a < mx * mx)
             (map2 (*) (map2 (-) (col 2 rs) (col 0 rs)) (map2 (-) (col 3 rs) (col 1 rs))))
        = map (in_scale_range mn mx) rs" for rs
    by (induction rs) (simp_all add: col_def in_scale_range_def box_area_def power2_eq_square)
  then show ?thesis
    by (simp add: filter_box_def Let_def mask_select_map)
qed

subsection \<open>The value computed by bboxes_iou\<close>

lemma map2_outer:
  "map2 (map2 f) (outer g xs ys) (outer h xs ys) = outer (\<lambda>x y. f (g x y) (h x y)) xs ys"
  by (simp add: outer_def map2_map_same)

lemma map_outer: "map (map f) (outer g xs ys) = outer (\<lambda>x y. f (g x y)) xs ys"
  by (simp add: outer_def)

lemma outer_map: "outer f (map g xs) (map h ys) = outer (\<lambda>x y. f (g x) (h y)) xs ys"
  by (simp add: outer_def comp_def)

lemma map2_left_outer:
  "map2 (\<lambda>a row. map2 (k a) (map h ys) row) (map g xs) (outer f xs ys)
     = outer (\<lambda>x y. k (g x) (h y) (f x y)) xs ys"
proof -
  have "map2 (k a) (map h ys) (map (f x) ys) = map (\<lambda>y. k a (h y) (f x y)) ys" for a x
    by (induction ys) simp_all
  then show ?thesis
    by (induction xs) (simp_all add: outer_def)
qed


lemma rows_sub_map: "rows_sub (map g xs) (map h xs) = map (\<lambda>r. map2 (-) (g r) (h r)) xs"
  by (simp add: rows_sub_def map2_map_same)

lemma iou_grid_value:
  "grid_div
     (prod_dim2 (cube_clamp_min 0 (cube_sub (outer (map2 min) (map g A) (map g B))
                                            (outer (map2 max) (map f A) (map f B)))))
     (union_area (prod_dim1 (map k A)) (prod_dim1 (map k B))
        (prod_dim2 (cube_clamp_min 0 (cube_sub (outer (map2 min) (map g A) (map g B))
                                               (outer (map2 max) (map f A) (map f B))))))
   = outer (\<lambda>ra rb.
        fdiv (prod_list (map (\<lambda>v. max v 0) (map2 (-) (map2 min (g ra) (g rb)) (map2 max (f ra) (f rb)))))
             (prod_list (k ra) + prod_list (k rb)
               - prod_list (map (\<lambda>v. max v 0) (map2 (-) (map2 min (g ra) (g rb)) (map2 max (f ra) (f rb)))))) A B"
  by (simp add: grid_div_def prod_dim2_def prod_dim1_def cube_clamp_min_def cube_sub_def
      union_area_def outer_map map2_outer map_outer map2_left_outer)

lemma pair_iou_xyxy:
  "pair_iou True = (\<lambda>ra rb.
        fdiv (prod_list (map (\<lambda>v. max v 0) (map2 (-) (map2 min (drop 2 ra) (drop 2 rb)) (map2 max (take 2 ra) (take 2 rb)))))
             (prod_list (map2 (-) (drop 2 ra) (take 2 ra)) + prod_list (map2 (-) (drop 2 rb) (take 2 rb))
               - prod_list (map (\<lambda>v. max v 0) (map2 (-) (map2 min (drop 2 ra) (drop 2 rb)) (map2 max (take 2 ra) (take 2 rb))))))"
  by (intro ext) (simp add: pair_iou_def Let_def)

lemma pair_iou_cxcywh:
  "pair_iou False = (\<lambda>ra rb.
        fdiv (prod_list (map (\<lambda>v. max v 0) (map2 (-) (map2 min (center_plus_half ra) (center_plus_half rb)) (map2 max (center_minus_half ra) (center_minus_half rb)))))
             (prod_list (drop 2 ra) + prod_list (drop 2 rb)
               - prod_list (map (\<lambda>v. max v 0) (map2 (-) (map2 min (center_plus_half ra) (center_plus_half rb)) (map2 max (center_minus_half ra) (center_minus_half rb))))))"
  by (intro ext) (simp add: pair_iou_def Let_def)

lemma promote_Int64: "promote a b = Int64 \<longleftrightarrow> a = Int64 \<and> b = Int64"
  by (cases a; cases b) (simp_all add: promote_def)

lemma bboxes_iou_result:
  assumes "a < length s" "b < length s" "s ! a = Mat da A" "s ! b = Mat db B"
    "ncols A = 4" "ncols B = 4"
    and "\<not> (inplace \<and> xyxy \<and> promote da db = Int64)"
  shows "\<exists>tmp p. bboxes_iou s a b xyxy inplace = Inr (s @ tmp, p) \<and> length s \<le> p \<and>
     (s @ tmp) ! p = Quot (outer (pair_iou xyxy) (rows A) (rows B))"
proof (cases inplace)
  case True
  have "\<exists>tmp. bboxes_iou s a b xyxy True = Inr (s @ tmp, length s + 2) \<and>
     (s @ tmp) ! (length s + 2) = Quot (outer (pair_iou xyxy) (rows A) (rows B))"
    using assms True
    by (simp add: bboxes_iou_def alloc_def mat_at_def dtype_at_def cube_at_def grid_at_def
        vec_at_def nth_append Let_def list_update_append rows_sub_map iou_grid_value
        pair_iou_xyxy pair_iou_cxcywh)
  with True show ?thesis by force
next
  case False
  have "\<exists>tmp. bboxes_iou s a b xyxy False = Inr (s @ tmp, length s + 6) \<and>
     (s @ tmp) ! (length s + 6) = Quot (outer (pair_iou xyxy) (rows A) (rows B))"
    using assms(1-6)
    by (simp add: bboxes_iou_def alloc_def mat_at_def cube_at_def grid_at_def vec_at_def
        nth_append Let_def list_update_append rows_sub_map iou_grid_value
        pair_iou_xyxy pair_iou_cxcywh)
  with False show ?thesis by force
qed

lemma bboxes_iou_runtime_error:
  assumes "a < length s" "b < length s" "s ! a = Mat da A" "s ! b = Mat db B"
    "ncols A = 4" "ncols B = 4"
    and "promote da db = Int64"
  shows "bboxes_iou s a b True True = Inl RuntimeError"
  using assms
  by (simp add: bboxes_iou_def alloc_def mat_at_def dtype_at_def Let_def split: prod.splits)

lemma pair_iou_corner_rows:
  "pair_iou True [x1, y1, x2, y2] [u1, v1, u2, v2] =
     fdiv (max (min x2 u2 - max x1 u1) 0 * max (min y2 v2 - max y1 v1) 0)
          ((x2 - x1) * (y2 - y1) + (u2 - u1) * (v2 - v1)
             - max (min x2 u2 - max x1 u1) 0 * max (min y2 v2 - max y1 v1) 0)"
  by (simp add: pair_iou_def Let_def)







lemma returned_bboxes_iou:
  assumes "a < length s" "b < length s" "s ! a = Mat da A" "s ! b = Mat db B"
    "ncols A = 4" "ncols B = 4"
    and "\<not> (inplace \<and> xyxy \<and> promote da db = Int64)"
  shows "returned (bboxes_iou s a b xyxy inplace) = Inr (Quot (outer (pair_iou xyxy) (rows A) (rows B)))"
  using bboxes_iou_result [OF assms]
  by (auto simp: returned_def)

text \<open>On floating tensors the two strategies return the same matrix.\<close>

lemma bboxes_iou_floating_equiv:
  assumes "a < length s" "b < length s" "s ! a = Mat da A" "s ! b = Mat db B"
    "ncols A = 4" "ncols B = 4" "da \<noteq> Int64 \<or> db \<noteq> Int64"
  shows "\<exists>Q. returned (bboxes_iou s a b xyxy True) = Inr (Quot Q) \<and>
             returned (bboxes_iou s a b xyxy False) = Inr (Quot Q)"
  using returned_bboxes_iou [OF assms(1-6), of True xyxy]
    returned_bboxes_iou [OF assms(1-6), of False xyxy] assms(7)
  by (simp add: promote_Int64)


section \<open>The claims about bboxes_iou and matrix_iou\<close>

text \<open>
  C1.  The claim is that, on inputs of four columns and for either value of \<open>xyxy\<close>,
  the call with \<open>inplace=True\<close> and the call with \<open>inplace=False\<close> return the same
  IoU matrix.  On two integer tensors in corner form they do not: the in-place call
  raises RuntimeError at \<open>area_ious.div_(union)\<close>, and the other call returns the
  matrix.
\<close>

theorem bboxes_iou_int64_inplace_raises:
  assumes "a < length s" "b < length s" "s ! a = Mat Int64 A" "s ! b = Mat Int64 B"
    "ncols A = 4" "ncols B = 4"
  shows "bboxes_iou s a b True True = Inl RuntimeError \<and>
         returned (bboxes_iou s a b True False)
           = Inr (Quot (outer (pair_iou True) (rows A) (rows B)))"
  using bboxes_iou_runtime_error [OF assms] returned_bboxes_iou [OF assms, of False True]
  by (simp add: promote_def)

theorem bboxes_iou_int64_inplace_raises_witness:
  "bboxes_iou [Mat Int64 (Tensor2 4 [[0, 0, 10, 10]]), Mat Int64 (Tensor2 4 [[5, 5, 15, 15]])]
      0 1 True True = Inl RuntimeError \<and>
   returned (bboxes_iou
      [Mat Int64 (Tensor2 4 [[0, 0, 10, 10]]), Mat Int64 (Tensor2 4 [[5, 5, 15, 15]])]
      0 1 True False) = Inr (Quot [[Some (1 / 7)]])"
  using bboxes_iou_int64_inplace_raises
      [of 0 "[Mat Int64 (Tensor2 4 [[0, 0, 10, 10]]), Mat Int64 (Tensor2 4 [[5, 5, 15, 15]])]"
        1 "Tensor2 4 [[0, 0, 10, 10]]" "Tensor2 4 [[5, 5, 15, 15]]"]
  by (simp add: outer_def pair_iou_corner_rows fdiv_def)

text \<open>
  C6.  \<open>bboxes_iou\<close> raises its IndexError exactly when one of the two inputs does not
  have four columns; when both have four columns the call on floating tensors returns.
\<close>

theorem bboxes_iou_error_iff:
  assumes "s ! a = Mat da A" "s ! b = Mat db B" "a < length s" "b < length s"
  shows "(bboxes_iou s a b xyxy inplace = Inl IndexError \<longleftrightarrow> ncols A \<noteq> 4 \<or> ncols B \<noteq> 4) \<and>
         (ncols A = 4 \<and> ncols B = 4 \<and> da \<noteq> Int64 \<and> db \<noteq> Int64 \<longrightarrow>
            (\<exists>r. bboxes_iou s a b xyxy inplace = Inr r))"
proof (cases "ncols A = 4 \<and> ncols B = 4")
  case True
  show ?thesis
  proof (cases "inplace \<and> xyxy \<and> promote da db = Int64")
    case True
    with \<open>ncols A = 4 \<and> ncols B = 4\<close> show ?thesis
      using bboxes_iou_runtime_error [of a s b da A db B] assms by (auto simp: promote_Int64)
  next
    case False
    with \<open>ncols A = 4 \<and> ncols B = 4\<close> show ?thesis
      using bboxes_iou_result [of a s b da A db B inplace xyxy] assms by auto
  qed
next
  case False
  then show ?thesis
    using assms by (auto simp: bboxes_iou_def mat_at_def)
qed

theorem bboxes_iou_error_iff_witness:
  "bboxes_iou [Mat Float32 (Tensor2 3 [[0, 0, 1]]), Mat Float32 (Tensor2 4 [[0, 0, 1, 1]])]
      0 1 True True = Inl IndexError \<and>
   (\<exists>r. bboxes_iou
      [Mat Float32 (Tensor2 4 [[0, 0, 1, 1]]), Mat Float32 (Tensor2 4 [[0, 0, 1, 1]])]
      0 1 True True = Inr r)"
  using bboxes_iou_error_iff
      [of "[Mat Float32 (Tensor2 3 [[0, 0, 1]]), Mat Float32 (Tensor2 4 [[0, 0, 1, 1]])]"
        0 Float32 "Tensor2 3 [[0, 0, 1]]" 1 Float32 "Tensor2 4 [[0, 0, 1, 1]]" True True]
    bboxes_iou_error_iff
      [of "[Mat Float32 (Tensor2 4 [[0, 0, 1, 1]]), Mat Float32 (Tensor2 4 [[0, 0, 1, 1]])]"
        0 Float32 "Tensor2 4 [[0, 0, 1, 1]]" 1 Float32 "Tensor2 4 [[0, 0, 1, 1]]" True True]
  by simp

text \<open>
  C10.  A call of \<open>bboxes_iou\<close> that returns leaves both inputs as they were, also with
  \<open>inplace=True\<close>: every address that was allocated before the call holds the tensor
  it held, and the result lives at a fresh address.
\<close>

theorem bboxes_iou_inputs_unchanged:
  assumes "a < length s" "b < length s" "s ! a = Mat da A" "s ! b = Mat db B"
    and "bboxes_iou s a b xyxy inplace = Inr (s', p)"
  shows "s' ! a = Mat da A \<and> s' ! b = Mat db B \<and> take (length s) s' = s \<and> length s \<le> p"
proof (cases "ncols A = 4 \<and> ncols B = 4")
  case True
  show ?thesis
  proof (cases "inplace \<and> xyxy \<and> promote da db = Int64")
    case True
    with \<open>ncols A = 4 \<and> ncols B = 4\<close> show ?thesis
      using bboxes_iou_runtime_error [of a s b da A db B] assms by auto
  next
    case False
    with \<open>ncols A = 4 \<and> ncols B = 4\<close> show ?thesis
      using bboxes_iou_result [of a s b da A db B inplace xyxy] assms by (auto simp: nth_append)
  qed
next
  case False
  then show ?thesis
    using assms by (auto simp: bboxes_iou_def mat_at_def)
qed

theorem bboxes_iou_inputs_unchanged_witness:
  "\<exists>s' p. bboxes_iou [Mat Float32 (Tensor2 4 [[0, 0, 10, 10]]), Mat Float32 (Tensor2 4 [[5, 5, 15, 15]])]
              0 1 True True = Inr (s', p) \<and>
     s' ! 0 = Mat Float32 (Tensor2 4 [[0, 0, 10, 10]]) \<and>
     s' ! 1 = Mat Float32 (Tensor2 4 [[5, 5, 15, 15]]) \<and>
     take 2 s' = [Mat Float32 (Tensor2 4 [[0, 0, 10, 10]]), Mat Float32 (Tensor2 4 [[5, 5, 15, 15]])] \<and> 2 \<le> p"
proof -
  let ?s = "[Mat Float32 (Tensor2 4 [[0, 0, 10, 10]]), Mat Float32 (Tensor2 4 [[5, 5, 15, 15]])]"
  obtain tmp p where r: "bboxes_iou ?s 0 1 True True = Inr (?s @ tmp, p)"
    using bboxes_iou_result [of 0 ?s 1 Float32 "Tensor2 4 [[0, 0, 10, 10]]"
        Float32 "Tensor2 4 [[5, 5, 15, 15]]" True True]
    by (auto simp: promote_def)
  show ?thesis
    using bboxes_iou_inputs_unchanged [of 0 ?s 1 Float32 "Tensor2 4 [[0, 0, 10, 10]]"
        Float32 "Tensor2 4 [[5, 5, 15, 15]]" True True "?s @ tmp" p] r
    by auto
qed






section \<open>The claims about filter_box and the format conversions\<close>





lemma wf_tensor_rows: "wf_tensor t \<Longrightarrow> r \<in> set (rows t) \<Longrightarrow> length r = ncols t"
  by (simp add: wf_tensor_def list_all_iff)

text \<open>
  C9.  \<open>filter_box\<close> keeps exactly the rows whose area \<open>w * h\<close> lies strictly between
  \<open>min_scale\<^sup>2\<close> and \<open>max_scale\<^sup>2\<close> (a row whose area equals one of the two bounds
  is dropped), keeps them in their order, and returns a result of no rows when no row
  qualifies.
\<close>

theorem filter_box_keeps_range:
  assumes "4 \<le> ncols output"
  shows "\<exists>kept. filter_box output (min_scale, max_scale) = Inr (Tensor2 (ncols output) kept) \<and>
           kept = filter (in_scale_range min_scale max_scale) (rows output) \<and>
           subseq kept (rows output) \<and>
           (\<forall>r. r \<in> set kept \<longleftrightarrow>
                r \<in> set (rows output) \<and> min_scale\<^sup>2 < box_area r \<and> box_area r < max_scale\<^sup>2) \<and>
           (\<forall>r \<in> set kept. box_area r \<noteq> min_scale\<^sup>2 \<and> box_area r \<noteq> max_scale\<^sup>2) \<and>
           ((\<forall>r \<in> set (rows output). \<not> in_scale_range min_scale max_scale r) \<longrightarrow> kept = [])"
  using assms by (auto simp: filter_box_eq in_scale_range_def filter_empty_conv)

theorem filter_box_keeps_range_witness:
  "filter_box (Tensor2 4 [[0, 0, 2, 2], [0, 0, 3, 3], [0, 0, 4, 4], [0, 0, 3, 2]]) (2, 4)
     = Inr (Tensor2 4 [[0, 0, 3, 3], [0, 0, 3, 2]]) \<and>
   filter_box (Tensor2 4 [[0, 0, 2, 2], [0, 0, 3, 3], [0, 0, 4, 4], [0, 0, 3, 2]]) (10, 11)
     = Inr (Tensor2 4 [])"
  using filter_box_keeps_range
      [of "Tensor2 4 [[0, 0, 2, 2], [0, 0, 3, 3], [0, 0, 4, 4], [0, 0, 3, 2]]" 2 4]
    filter_box_keeps_range
      [of "Tensor2 4 [[0, 0, 2, 2], [0, 0, 3, 3], [0, 0, 4, 4], [0, 0, 3, 2]]" 10 11]
  by (simp add: in_scale_range_def box_area_def)













section \<open>The claim about adjust_lmks_anns\<close>

lemma invalidate_points_pair:
  "invalidate_points w h (x # y # r) =
     (if x < 0 \<or> y < 0 \<or> x > w \<or> y > h then - 1 else x)
       # (if x < 0 \<or> y < 0 \<or> x > w \<or> y > h then - 1 else y)
       # invalidate_points w h r"
  by simp

lemma adjust_row_nth:
  assumes "even (length r)" "2 * k + 1 < length r"
  shows "invalidate_points w h
           (map2 (\<lambda>v m. v * m + m - 1) (map_odd g (map_even f r))
              (map (\<lambda>v. if v > 0 then 1 else 0) r)) ! (2 * k)
         = (if r ! (2 * k) > 0 \<and> r ! (2 * k + 1) > 0 \<and> 0 \<le> f (r ! (2 * k)) \<and>
               0 \<le> g (r ! (2 * k + 1)) \<and> f (r ! (2 * k)) \<le> w \<and> g (r ! (2 * k + 1)) \<le> h
            then f (r ! (2 * k)) else - 1)
       \<and> invalidate_points w h
           (map2 (\<lambda>v m. v * m + m - 1) (map_odd g (map_even f r))
              (map (\<lambda>v. if v > 0 then 1 else 0) r)) ! (2 * k + 1)
         = (if r ! (2 * k) > 0 \<and> r ! (2 * k + 1) > 0 \<and> 0 \<le> f (r ! (2 * k)) \<and>
               0 \<le> g (r ! (2 * k + 1)) \<and> f (r ! (2 * k)) \<le> w \<and> g (r ! (2 * k + 1)) \<le> h
            then g (r ! (2 * k + 1)) else - 1)"
  using assms
proof (induction f r arbitrary: k rule: map_even.induct)
  case (1 f x y r)
  show ?case
  proof (cases k)
    case 0
    then show ?thesis
      by (auto simp del: invalidate_points.simps simp add: invalidate_points_pair)
  next
    case (Suc k')
    with 1 show ?thesis
      by (simp del: invalidate_points.simps add: invalidate_points_pair)
  qed
qed simp_all

text \<open>
  C7.  In the result of \<open>adjust_lmks_anns\<close>, a landmark pair whose original \<open>x\<close> or
  \<open>y\<close> was at most 0 is \<open>(-1, -1)\<close>, whatever \<open>scale_ratio\<close>, \<open>padw\<close> and
  \<open>padh\<close> are, and so is a pair whose transformed \<open>x\<close> lies outside \<open>[0, w_max]\<close>
  or whose transformed \<open>y\<close> lies outside \<open>[0, h_max]\<close>.  Every other pair holds its
  transformed coordinates.
\<close>

theorem adjust_lmks_anns_invalid:
  assumes "wf_tensor landmarks" "even (ncols landmarks)"
    and "j < length (rows landmarks)" "2 * k + 1 < ncols landmarks"
    and "x = rows landmarks ! j ! (2 * k)" "y = rows landmarks ! j ! (2 * k + 1)"
  shows "\<exists>out. adjust_lmks_anns landmarks scale_ratio padw padh w_max h_max = Inr out \<and>
           (x \<le> 0 \<or> y \<le> 0 \<longrightarrow>
              rows out ! j ! (2 * k) = - 1 \<and> rows out ! j ! (2 * k + 1) = - 1) \<and>
           (x * scale_ratio + padw < 0 \<or> x * scale_ratio + padw > w_max \<or>
            y * scale_ratio + padh < 0 \<or> y * scale_ratio + padh > h_max \<longrightarrow>
              rows out ! j ! (2 * k) = - 1 \<and> rows out ! j ! (2 * k + 1) = - 1) \<and>
           (0 < x \<and> 0 < y \<and> 0 \<le> x * scale_ratio + padw \<and> x * scale_ratio + padw \<le> w_max \<and>
            0 \<le> y * scale_ratio + padh \<and> y * scale_ratio + padh \<le> h_max \<longrightarrow>
              rows out ! j ! (2 * k) = x * scale_ratio + padw \<and>
              rows out ! j ! (2 * k + 1) = y * scale_ratio + padh)"
proof -
  let ?r = "rows landmarks ! j"
  have len: "length ?r = ncols landmarks"
    using assms(1,3) by (simp add: wf_tensor_rows)
  have mask: "map G (map2 (map2 h) (map F2 (map F1 rs)) (map (map M) rs))
                = map (\<lambda>r. G (map2 h (F2 (F1 r)) (map M r))) rs"
    for G :: "real list \<Rightarrow> real list" and h :: "real \<Rightarrow> real \<Rightarrow> real"
      and F1 F2 M and rs :: "real list list"
    by (induction rs) simp_all
  have out: "adjust_lmks_anns landmarks scale_ratio padw padh w_max h_max =
      Inr (Tensor2 (ncols landmarks)
        (map (\<lambda>r. invalidate_points w_max h_max
                (map2 (\<lambda>v m. v * m + m - 1)
                   (map_odd (\<lambda>v. v * scale_ratio + padh) (map_even (\<lambda>v. v * scale_ratio + padw) r))
                   (map (\<lambda>v. if v > 0 then 1 else 0) r)))
           (rows landmarks)))"
    using assms(2) unfolding adjust_lmks_anns_def Let_def mask by simp
  show ?thesis
    unfolding out
    using adjust_row_nth [of ?r k w_max h_max "\<lambda>v. v * scale_ratio + padh" "\<lambda>v. v * scale_ratio + padw"]
      assms(2-6) len
    by auto
qed

theorem adjust_lmks_anns_invalid_witness:
  "\<exists>out. adjust_lmks_anns (Tensor2 6 [[0, 5, 3, 4, 1, 1]]) 2 1 1 6 20 = Inr out \<and>
     rows out ! 0 ! 0 = - 1 \<and> rows out ! 0 ! 1 = - 1 \<and>
     rows out ! 0 ! 2 = - 1 \<and> rows out ! 0 ! 3 = - 1 \<and>
     rows out ! 0 ! 4 = 3 \<and> rows out ! 0 ! 5 = 3"
  using adjust_lmks_anns_invalid [of "Tensor2 6 [[0, 5, 3, 4, 1, 1]]" 0 0 0 5 2 1 1 6 20]
    adjust_lmks_anns_invalid [of "Tensor2 6 [[0, 5, 3, 4, 1, 1]]" 0 1 3 4 2 1 1 6 20]
    adjust_lmks_anns_invalid [of "Tensor2 6 [[0, 5, 3, 4, 1, 1]]" 0 2 1 1 2 1 1 6 20]
  by (auto simp: wf_tensor_def)

section \<open>The claims about postprocess\<close>

lemma candidates_filter:
  "candidates num_classes conf_thre extra image_pred =
     map (detection_row num_classes extra)
       (filter (\<lambda>r. conf_thre \<le> fused_confidence num_classes r) image_pred)"
proof -
  have "mask_select (map f rs) (map2 (\<lambda>obj cc. thr \<le> obj * cc) (col 4 rs) (map g rs))
          = map f (filter (\<lambda>r. thr \<le> r ! 4 * g r) rs)"
    for f :: "real list \<Rightarrow> real list" and g thr and rs :: "real list list"
    by (induction rs) (simp_all add: mask_select_def col_def)
  then show ?thesis
    by (simp add: candidates_def conf_mask_def fused_confidence_def)
qed

lemma postprocess_image_one_row:
  assumes "5 < C" "0 < num_classes" "conf_thre \<le> fused_confidence num_classes r"
  shows "postprocess_image C num_classes conf_thre nms_thre class_agnostic keypoints segs [r]
           = Inl IndexError"
  using assms by (simp add: postprocess_image_def candidates_filter)

lemma map2_commute:
  assumes "\<And>x y. f x y = f y x"
  shows "map2 f xs ys = map2 f ys xs"
proof (induction xs arbitrary: ys)
  case Nil
  then show ?case by simp
next
  case (Cons x xs)
  then show ?case by (cases ys) (simp_all add: assms)
qed

lemma pair_iou_sym: "pair_iou True a b = pair_iou True b a"
proof -
  have 1: "map2 max (take 2 a) (take 2 b) = map2 max (take 2 b) (take 2 a)"
    by (rule map2_commute) (simp add: max.commute)
  have 2: "map2 min (drop 2 a) (drop 2 b) = map2 min (drop 2 b) (drop 2 a)"
    by (rule map2_commute) (simp add: min.commute)
  show ?thesis
    unfolding pair_iou_xyxy 1 2 by (simp add: add.commute)
qed

lemma length_candidates:
  "length (candidates num_classes conf_thre extra image_pred) \<le> length image_pred"
  by (simp add: candidates_filter)

lemma score_order_two:
  "score_order [s1, s2] = (if s2 \<le> s1 then [0, 1] else [1, 0])"
  by (simp add: score_order_def upt_rec)

text \<open>
  C2.  The claim is that, for every image, a row is handed to the suppression step
  exactly when its fused confidence is at least \<open>conf_thre\<close>, and that the result is
  \<open>None\<close> when no row passes.  For an image of exactly one row whose row passes,
  \<open>postprocess\<close> raises IndexError instead; the same row in an image of two rows is
  retained and returned.
\<close>

theorem postprocess_one_row_raises:
  assumes "5 < C" "0 < num_classes"
    and "conf_thre \<le> fused_confidence num_classes (to_corners r)"
  shows "postprocess (Tensor3 C [[r]]) num_classes conf_thre nms_thre class_agnostic
           keypoints segs = Inl IndexError"
  using assms postprocess_image_one_row [OF assms]
  by (simp add: postprocess_def)

theorem postprocess_one_row_raises_witness:
  "postprocess (Tensor3 7 [[[5, 5, 10, 10, 0.9, 0.9, 0.1]]]) 2 0.5 0.45 False False False
     = Inl IndexError \<and>
   postprocess (Tensor3 7 [[[5, 5, 10, 10, 0.9, 0.9, 0.1], [25, 25, 10, 10, 0.5, 0.6, 0.1]]])
      2 0.5 0.45 False False False
     = Inr [Some (Tensor2 7 [[0, 0, 10, 10, 0.9, 0.9, 0]])]"
proof -
  have "postprocess (Tensor3 7 [[[5, 5, 10, 10, 0.9, 0.9, 0.1]]]) 2 0.5 0.45 False False False
          = Inl IndexError"
    by (rule postprocess_one_row_raises)
       (simp_all add: to_corners_def fused_confidence_def torch_max_def class_scores_def)
  moreover have "postprocess_image 7 2 0.5 0.45 False False False
          (map to_corners [[5, 5, 10, 10, 0.9, 0.9, 0.1], [25, 25, 10, 10, 0.5, 0.6, 0.1]])
        = Inr (Some (Tensor2 7 [[0, 0, 10, 10, 0.9, 0.9, 0]]))"
    by (simp add: postprocess_image_def candidates_filter to_corners_def fused_confidence_def
        torch_max_def class_scores_def detection_row_def batched_nms_def score_order_def
        col_def)
  ultimately show ?thesis
    by (simp add: postprocess_def)
qed

text \<open>
  C3.  For a single image with exactly two candidates after the confidence filter, of
  different fused scores and eligible for joint suppression (class-agnostic mode, or
  equal class ids): when their IoU exceeds \<open>nms_thre\<close> only the higher-scoring one is
  returned, and when it is at most \<open>nms_thre\<close> both are, the higher-scoring first.
\<close>

theorem nms_two_candidates:
  assumes "5 < C" "0 < num_classes"
    and "candidates num_classes conf_thre (keypoints \<or> segs) (map to_corners img) = [d1, d2]"
    and "fused_score d1 \<noteq> fused_score d2"
    and "class_agnostic \<or> d1 ! 6 = d2 ! 6"
    and "pair_iou True (take 4 d1) (take 4 d2) = Some v"
  shows "(nms_thre < v \<longrightarrow>
            postprocess (Tensor3 C [img]) num_classes conf_thre nms_thre class_agnostic
              keypoints segs
            = Inr [Some (Tensor2 (7 + (if keypoints \<or> segs then C - (5 + num_classes) else 0))
                     [if fused_score d2 < fused_score d1 then d1 else d2])]) \<and>
         (v \<le> nms_thre \<longrightarrow>
            postprocess (Tensor3 C [img]) num_classes conf_thre nms_thre class_agnostic
              keypoints segs
            = Inr [Some (Tensor2 (7 + (if keypoints \<or> segs then C - (5 + num_classes) else 0))
                     (if fused_score d2 < fused_score d1 then [d1, d2] else [d2, d1]))])"
proof -
  have len: "length (map to_corners img) \<noteq> 1" "map to_corners img \<noteq> []"
    using length_candidates [of num_classes conf_thre "keypoints \<or> segs" "map to_corners img"]
    unfolding assms(3) by auto
  have sym: "pair_iou True (take 4 d2) (take 4 d1) = Some v"
    using assms(6) by (simp add: pair_iou_sym)
  show ?thesis
    using assms(1,2,4,5) len
    by (auto simp: postprocess_def postprocess_image_def assms(3) Let_def fused_score_def
        score_order_two nms_def batched_nms_def iou_exceeds_def assms(6) sym col_def)
qed

theorem nms_two_candidates_witness:
  "postprocess (Tensor3 7 [[[5, 5, 10, 10, 0.9, 0.9, 0.1], [6, 5, 10, 10, 0.8, 0.9, 0.1]]])
      2 0.5 0.45 False False False
     = Inr [Some (Tensor2 7 [[0, 0, 10, 10, 0.9, 0.9, 0]])] \<and>
   postprocess (Tensor3 7 [[[25, 25, 10, 10, 0.8, 0.9, 0.1], [5, 5, 10, 10, 0.9, 0.9, 0.1]]])
      2 0.5 0.45 False False False
     = Inr [Some (Tensor2 7 [[0, 0, 10, 10, 0.9, 0.9, 0], [20, 20, 30, 30, 0.8, 0.9, 0]])]"
  using nms_two_candidates [where C = 7 and num_classes = 2 and conf_thre = "0.5"
      and keypoints = False and segs = False and class_agnostic = False
      and img = "[[5, 5, 10, 10, 0.9, 0.9, 0.1], [6, 5, 10, 10, 0.8, 0.9, 0.1]]"
      and ?d1.0 = "[0, 0, 10, 10, 0.9, 0.9, 0]" and ?d2.0 = "[1, 0, 11, 10, 0.8, 0.9, 0]"
      and v = "9 / 11" and nms_thre = "0.45"]
    nms_two_candidates [where C = 7 and num_classes = 2 and conf_thre = "0.5"
      and keypoints = False and segs = False and class_agnostic = False
      and img = "[[25, 25, 10, 10, 0.8, 0.9, 0.1], [5, 5, 10, 10, 0.9, 0.9, 0.1]]"
      and ?d1.0 = "[20, 20, 30, 30, 0.8, 0.9, 0]" and ?d2.0 = "[0, 0, 10, 10, 0.9, 0.9, 0]"
      and v = 0 and nms_thre = "0.45"]
  by (simp add: candidates_filter to_corners_def fused_confidence_def torch_max_def
      class_scores_def detection_row_def fused_score_def pair_iou_corner_rows fdiv_def)

end
